theory Spec2Isabelle
  imports Complex_Main "HOL-Library.Sublist"
begin

section \<open>Python values, exceptions and builtins\<close>

text \<open>
  The two scripts \<^verbatim>\<open>analyze_performance.py\<close> and \<^verbatim>\<open>analyze_detailed.py\<close> read a CSV
  file with \<^verbatim>\<open>csv.DictReader\<close> and print statistics. A row is a dictionary from column
  names to cells. A cell is a string, or \<^verbatim>\<open>None\<close> where the line has fewer fields than
  the header: the reader fills the missing cells with \<^verbatim>\<open>None\<close>. A key is absent from a
  row only when the header does not have the column. A Python
  \<^verbatim>\<open>float\<close> is modelled by the real number it denotes, with exact arithmetic:
  rounding, infinities and NaN are not part of the model. Integers are unbounded, as in
  Python. Every exception the code can raise is a value of \<open>py_error\<close>, and a
  computation that may raise returns \<open>py_error + 'a\<close> with \<open>Inl\<close> for the raise.
\<close>

datatype py_error = ValueError | KeyError | TypeError | ZeroDivisionError | StatisticsError

type_synonym cell = "string option"

type_synonym row = "string \<rightharpoonup> cell"

definition bind_err :: "py_error + 'a \<Rightarrow> ('a \<Rightarrow> py_error + 'b) \<Rightarrow> py_error + 'b" where
  "bind_err m f = (case m of Inl e \<Rightarrow> Inl e | Inr x \<Rightarrow> f x)"

text \<open>\<^verbatim>\<open>r[k]\<close> on a dictionary raises KeyError when the key is absent.\<close>

definition getitem :: "row \<Rightarrow> string \<Rightarrow> py_error + cell" where
  "getitem r k = (case r k of None \<Rightarrow> Inl KeyError | Some v \<Rightarrow> Inr v)"

text \<open>
  The builtins \<^verbatim>\<open>float(s)\<close> and \<^verbatim>\<open>int(s)\<close> on a string either return a number or raise
  ValueError. Their grammar belongs to the Python runtime, not to this repository, so
  the parsers are parameters \<open>pf\<close> and \<open>pn\<close> of everything that reads a row; \<open>None\<close>
  stands for the raise.
\<close>

definition float_of_str :: "(string \<Rightarrow> real option) \<Rightarrow> string \<Rightarrow> py_error + real" where
  "float_of_str pf s = (case pf s of None \<Rightarrow> Inl ValueError | Some x \<Rightarrow> Inr x)"

definition int_of_str :: "(string \<Rightarrow> int option) \<Rightarrow> string \<Rightarrow> py_error + int" where
  "int_of_str pn s = (case pn s of None \<Rightarrow> Inl ValueError | Some n \<Rightarrow> Inr n)"

text \<open>
  Applied to a cell, as the code applies them to \<^verbatim>\<open>r[k]\<close>: \<^verbatim>\<open>float(None)\<close> and
  \<^verbatim>\<open>int(None)\<close> raise TypeError.
\<close>

definition float_of_cell :: "(string \<Rightarrow> real option) \<Rightarrow> cell \<Rightarrow> py_error + real" where
  "float_of_cell pf c = (case c of None \<Rightarrow> Inl TypeError | Some s \<Rightarrow> float_of_str pf s)"

definition int_of_cell :: "(string \<Rightarrow> int option) \<Rightarrow> cell \<Rightarrow> py_error + int" where
  "int_of_cell pn c = (case c of None \<Rightarrow> Inl TypeError | Some s \<Rightarrow> int_of_str pn s)"

text \<open>\<^verbatim>\<open>int(x)\<close> on a float truncates towards zero.\<close>

definition int_of_float :: "real \<Rightarrow> int" where
  "int_of_float x = (if 0 \<le> x then \<lfloor>x\<rfloor> else \<lceil>x\<rceil>)"

text \<open>\<^verbatim>\<open>a / b\<close> on floats raises ZeroDivisionError when the divisor is zero.\<close>

definition truediv :: "real \<Rightarrow> real \<Rightarrow> py_error + real" where
  "truediv a b = (if b = 0 then Inl ZeroDivisionError else Inr (a / b))"

text \<open>
  \<^verbatim>\<open>str.strip()\<close> removes leading and trailing whitespace; the whitespace characters
  below code point 256 are listed.
\<close>

definition isspace :: "char \<Rightarrow> bool" where
  "isspace c = ((of_char c :: nat) \<in> set [9, 10, 11, 12, 13, 28, 29, 30, 31, 32, 133, 160])"

definition strip :: "string \<Rightarrow> string" where
  "strip s = rev (dropWhile isspace (rev (dropWhile isspace s)))"

text \<open>
  The test \<^verbatim>\<open>r['realized_ret_30s'] and r['realized_ret_30s'].strip()\<close>: \<^verbatim>\<open>None\<close> is
  false, a string is true when it is not empty, and \<^verbatim>\<open>and\<close> evaluates its second
  operand only when the first is true.
\<close>

definition has_return :: "cell \<Rightarrow> bool" where
  "has_return c = (case c of None \<Rightarrow> False | Some s \<Rightarrow> s \<noteq> [] \<and> strip s \<noteq> [])"

text \<open>
  \<^verbatim>\<open>statistics.mean\<close> raises StatisticsError on no data; \<^verbatim>\<open>statistics.stdev\<close> is the
  square root of the sample variance (divisor \<open>n - 1\<close>) and raises StatisticsError on
  fewer than two data points. \<^verbatim>\<open>sum\<close> adds from the left, starting at 0.
\<close>

definition py_sum :: "'a::monoid_add list \<Rightarrow> 'a" where
  "py_sum xs = foldl (+) 0 xs"

definition mean :: "real list \<Rightarrow> py_error + real" where
  "mean xs = (if xs = [] then Inl StatisticsError else Inr (py_sum xs / real (length xs)))"

definition stdev :: "real list \<Rightarrow> py_error + real" where
  "stdev xs =
     (if length xs < 2 then Inl StatisticsError
      else let xbar = py_sum xs / real (length xs);
               ss = py_sum (map (\<lambda>x. (x - xbar)\<^sup>2) xs)
           in Inr (sqrt (ss / real (length xs - 1))))"

section \<open>analyze\_performance.py\<close>

record prediction =
  p_cal :: real
  predicted_up :: int
  realized_ret :: real
  realized_up :: int
  correct :: bool
  spread_ticks :: real

text \<open>The dictionary appended to \<^verbatim>\<open>predictions\<close> (lines 34 to 41).\<close>

definition make_prediction :: "real \<Rightarrow> real \<Rightarrow> int \<Rightarrow> real \<Rightarrow> prediction" where
  "make_prediction pc rr ru sp =
     \<lparr>p_cal = pc,
      predicted_up = (if pc > 0.5 then 1 else 0),
      realized_ret = rr,
      realized_up = ru,
      correct = ((pc > 0.5 \<and> ru = 1) \<or> (pc \<le> 0.5 \<and> ru = 0)),
      spread_ticks = sp / 0.001\<rparr>"

text \<open>The body of the \<^verbatim>\<open>try\<close> of lines 28 to 41, for one row.\<close>

definition parse_prediction ::
  "(string \<Rightarrow> real option) \<Rightarrow> (string \<Rightarrow> int option) \<Rightarrow> row \<Rightarrow> py_error + prediction" where
  "parse_prediction pf pn r =
     bind_err (bind_err (getitem r ''p_fused_cal'') (float_of_cell pf)) (\<lambda>pc.
     bind_err (bind_err (getitem r ''realized_ret_30s'') (float_of_cell pf)) (\<lambda>rr.
     bind_err (bind_err (getitem r ''realized_up_30s'') (int_of_cell pn)) (\<lambda>ru.
     bind_err (bind_err (getitem r ''spread'') (float_of_cell pf)) (\<lambda>sp.
     Inr (make_prediction pc rr ru sp)))))"

text \<open>
  The loop of lines 26 to 43: \<^verbatim>\<open>except (ValueError, KeyError): continue\<close> skips the row,
  any other exception leaves the loop.
\<close>

fun parse_predictions ::
  "(string \<Rightarrow> real option) \<Rightarrow> (string \<Rightarrow> int option) \<Rightarrow> prediction list \<Rightarrow> row list
     \<Rightarrow> py_error + prediction list" where
  "parse_predictions pf pn predictions [] = Inr predictions"
| "parse_predictions pf pn predictions (r # rs) =
     (case parse_prediction pf pn r of
        Inr p \<Rightarrow> parse_predictions pf pn (predictions @ [p]) rs
      | Inl e \<Rightarrow>
          if e = ValueError \<or> e = KeyError then parse_predictions pf pn predictions rs
          else Inl e)"

text \<open>
  Calibration bins (lines 49 to 52): \<^verbatim>\<open>bins\<close> is a \<^verbatim>\<open>defaultdict(list)\<close>, kept here as
  an association list in insertion order with one entry per key.
  \<^verbatim>\<open>bins[bin_idx].append(p)\<close> creates the entry when the key is new.
\<close>

definition bin_idx :: "prediction \<Rightarrow> int" where
  "bin_idx p = int_of_float (p_cal p * 10)"

fun bins_append :: "(int \<times> prediction list) list \<Rightarrow> int \<Rightarrow> prediction \<Rightarrow> (int \<times> prediction list) list" where
  "bins_append [] k p = [(k, [p])]"
| "bins_append ((k', v) # b) k p =
     (if k' = k then (k', v @ [p]) # b else (k', v) # bins_append b k p)"

definition build_bins :: "prediction list \<Rightarrow> (int \<times> prediction list) list" where
  "build_bins predictions = foldl (\<lambda>bins p. bins_append bins (bin_idx p) p) [] predictions"

text \<open>\<^verbatim>\<open>bins[bin_idx]\<close> read back: a \<^verbatim>\<open>defaultdict(list)\<close> gives the empty list for a new key.\<close>

definition bins_get :: "(int \<times> prediction list) list \<Rightarrow> int \<Rightarrow> prediction list" where
  "bins_get bins k = (case map_of bins k of None \<Rightarrow> [] | Some v \<Rightarrow> v)"

text \<open>
  One printed line of the calibration table (lines 73 to 78): the bin index, the count,
  the realised share of ups and the expected share. The division is guarded by
  \<^verbatim>\<open>len(bin_data) > 0\<close>.
\<close>

record calibration_row =
  bin_index :: int
  bin_count :: nat
  actual_up :: real
  expected_up :: real

definition calibration_line :: "(int \<times> prediction list) list \<Rightarrow> int \<Rightarrow> calibration_row list" where
  "calibration_line bins k =
     (let bin_data = bins_get bins k
      in if length bin_data > 0
         then [\<lparr>bin_index = k,
                bin_count = length bin_data,
                actual_up = real (length (filter (\<lambda>p. realized_up p = 1) bin_data))
                              / real (length bin_data),
                expected_up = real_of_int k * 0.1 + 0.05\<rparr>]
         else [])"

definition calibration_table :: "prediction list \<Rightarrow> calibration_row list" where
  "calibration_table predictions =
     (let bins = build_bins predictions
      in concat (map (calibration_line bins) (sort (map fst bins))))"

section \<open>analyze\_detailed.py\<close>

text \<open>
  The dictionary \<^verbatim>\<open>pred_data\<close> of lines 23 to 33. A record of \<^verbatim>\<open>rows_with_returns\<close> is
  the same dictionary after lines 38 and 39 have stored two more keys in it, so it
  extends \<open>pred_data\<close>; \<^verbatim>\<open>all_predictions\<close> is read only for the price and the length.
\<close>

record pred_data =
  timestamp :: cell
  price :: real
  p_fused :: real
  p_fused_cal :: real
  p_hcqr :: real
  p_lvp :: real
  p_rrf :: real
  ofi :: real
  spread :: real

record resolved_data = pred_data +
  realized_ret :: real
  realized_up :: int

text \<open>The dictionary display of lines 23 to 33; its entries are evaluated in order.\<close>

definition parse_pred_data :: "(string \<Rightarrow> real option) \<Rightarrow> row \<Rightarrow> py_error + pred_data" where
  "parse_pred_data pf r =
     bind_err (getitem r ''wall_time_iso'') (\<lambda>ts.
     bind_err (bind_err (getitem r ''mid'') (float_of_cell pf)) (\<lambda>pr.
     bind_err (bind_err (getitem r ''p_fused'') (float_of_cell pf)) (\<lambda>pfu.
     bind_err (bind_err (getitem r ''p_fused_cal'') (float_of_cell pf)) (\<lambda>pc.
     bind_err (bind_err (getitem r ''p_hcqr'') (float_of_cell pf)) (\<lambda>ph.
     bind_err (bind_err (getitem r ''p_lvp'') (float_of_cell pf)) (\<lambda>pl.
     bind_err (bind_err (getitem r ''p_rrf'') (float_of_cell pf)) (\<lambda>prr.
     bind_err (bind_err (getitem r ''ofi_w'') (float_of_cell pf)) (\<lambda>ow.
     bind_err (bind_err (getitem r ''spread'') (float_of_cell pf)) (\<lambda>sp.
     Inr \<lparr>timestamp = ts, price = pr, p_fused = pfu, p_fused_cal = pc, p_hcqr = ph,
          p_lvp = pl, p_rrf = prr, ofi = ow, spread = sp\<rparr>)))))))))"

text \<open>
  Lines 37 to 39, after \<^verbatim>\<open>pred_data\<close> has been appended to \<^verbatim>\<open>all_predictions\<close>: the
  realized return and direction, when the return column is not blank. \<open>Inr None\<close> is the
  row without an outcome.
\<close>

definition parse_outcome ::
  "(string \<Rightarrow> real option) \<Rightarrow> (string \<Rightarrow> int option) \<Rightarrow> row \<Rightarrow> py_error + (real \<times> int) option" where
  "parse_outcome pf pn r =
     bind_err (getitem r ''realized_ret_30s'') (\<lambda>s.
       if has_return s then
         bind_err (float_of_cell pf s) (\<lambda>rr.
         bind_err (bind_err (getitem r ''realized_up_30s'') (int_of_cell pn)) (\<lambda>ru.
         Inr (Some (rr, ru))))
       else Inr None)"

text \<open>
  The body of the \<^verbatim>\<open>try\<close> of lines 21 to 40 for one row, on the two lists
  \<open>(all_predictions, rows_with_returns)\<close>. An append made before an exception is raised
  stays, so the body returns the lists together with the exception, if any.
\<close>

definition try_row ::
  "(string \<Rightarrow> real option) \<Rightarrow> (string \<Rightarrow> int option) \<Rightarrow> row
     \<Rightarrow> pred_data list \<times> resolved_data list
     \<Rightarrow> (pred_data list \<times> resolved_data list) \<times> py_error option" where
  "try_row pf pn r st =
     (case parse_pred_data pf r of
        Inl e \<Rightarrow> (st, Some e)
      | Inr pd \<Rightarrow>
          (case parse_outcome pf pn r of
             Inl e \<Rightarrow> ((fst st @ [pd], snd st), Some e)
           | Inr None \<Rightarrow> ((fst st @ [pd], snd st), None)
           | Inr (Some (rr, ru)) \<Rightarrow>
               ((fst st @ [pd],
                 snd st @ [pred_data.extend pd (resolved_data.fields rr ru)]), None)))"

text \<open>
  The loop of lines 20 to 42: \<^verbatim>\<open>except (ValueError, KeyError): continue\<close> goes on with
  the next row; any other exception would end the program.
\<close>

fun ingest_loop ::
  "(string \<Rightarrow> real option) \<Rightarrow> (string \<Rightarrow> int option)
     \<Rightarrow> pred_data list \<times> resolved_data list \<Rightarrow> row list
     \<Rightarrow> py_error + pred_data list \<times> resolved_data list" where
  "ingest_loop pf pn st [] = Inr st"
| "ingest_loop pf pn st (r # rs) =
     (case try_row pf pn r st of
        (st', None) \<Rightarrow> ingest_loop pf pn st' rs
      | (st', Some e) \<Rightarrow>
          if e = ValueError \<or> e = KeyError then ingest_loop pf pn st' rs else Inl e)"

definition ingest ::
  "(string \<Rightarrow> real option) \<Rightarrow> (string \<Rightarrow> int option) \<Rightarrow> row list
     \<Rightarrow> py_error + pred_data list \<times> resolved_data list" where
  "ingest pf pn rows = ingest_loop pf pn ([], []) rows"

subsection \<open>Market movement (lines 48 to 59)\<close>

record movement =
  start_price :: real
  end_price :: real
  price_change :: real
  min_price :: real
  max_price :: real

text \<open>
  The section is printed under \<^verbatim>\<open>if all_predictions:\<close>; \<open>Inr None\<close> is the section left
  out. \<^verbatim>\<open>prices[0]\<close> and \<^verbatim>\<open>prices[-1]\<close> are the first and the last element.
\<close>

definition market_movement :: "pred_data list \<Rightarrow> py_error + movement option" where
  "market_movement all_predictions =
     (case map price all_predictions of
        [] \<Rightarrow> Inr None
      | p0 # ps \<Rightarrow>
          bind_err (truediv (last (p0 # ps) - p0) p0) (\<lambda>change.
          Inr (Some \<lparr>start_price = p0, end_price = last (p0 # ps), price_change = change,
                     min_price = fold min ps p0, max_price = fold max ps p0\<rparr>)))"

subsection \<open>Model components (lines 61 to 75)\<close>

text \<open>
  \<^verbatim>\<open>p[comp]\<close> for the four names of \<^verbatim>\<open>components\<close>: a component is the field it reads.
\<close>

definition components :: "(resolved_data \<Rightarrow> real) list" where
  "components = [p_hcqr, p_lvp, p_rrf, p_fused_cal]"

definition comp_correct :: "(resolved_data \<Rightarrow> real) \<Rightarrow> resolved_data \<Rightarrow> bool" where
  "comp_correct fld p =
     ((fld p > 0.5 \<and> realized_up p = 1) \<or> (fld p \<le> 0.5 \<and> realized_up p = 0))"

definition correct_count :: "(resolved_data \<Rightarrow> real) \<Rightarrow> resolved_data list \<Rightarrow> int" where
  "correct_count fld rows = py_sum (map (\<lambda>p. 1) (filter (comp_correct fld) rows))"

definition brier_sum :: "(resolved_data \<Rightarrow> real) \<Rightarrow> resolved_data list \<Rightarrow> real" where
  "brier_sum fld rows = py_sum (map (\<lambda>p. (fld p - real_of_int (realized_up p))\<^sup>2) rows)"

text \<open>Accuracy and Brier score of one component, as the pair \<open>(accuracy, brier)\<close>.\<close>

definition component_performance ::
  "(resolved_data \<Rightarrow> real) \<Rightarrow> resolved_data list \<Rightarrow> py_error + real \<times> real" where
  "component_performance fld rows =
     bind_err (truediv (real_of_int (correct_count fld rows)) (real (length rows))) (\<lambda>accuracy.
     bind_err (truediv (brier_sum fld rows) (real (length rows))) (\<lambda>brier.
     Inr (accuracy, brier)))"

text \<open>The loop over \<^verbatim>\<open>components\<close> under \<^verbatim>\<open>if rows_with_returns:\<close>.\<close>

fun component_lines ::
  "(resolved_data \<Rightarrow> real) list \<Rightarrow> resolved_data list \<Rightarrow> py_error + (real \<times> real) list" where
  "component_lines [] rows = Inr []"
| "component_lines (fld # flds) rows =
     bind_err (component_performance fld rows) (\<lambda>l.
     bind_err (component_lines flds rows) (\<lambda>ls. Inr (l # ls)))"

definition model_component_performance :: "resolved_data list \<Rightarrow> py_error + (real \<times> real) list option" where
  "model_component_performance rows_with_returns =
     (if rows_with_returns \<noteq> []
      then bind_err (component_lines components rows_with_returns) (\<lambda>ls. Inr (Some ls))
      else Inr None)"

subsection \<open>Trading simulation (lines 77 to 108)\<close>

record trade =
  direction :: string
  confidence :: real
  return :: real
  spread_cost :: real

text \<open>The loop of lines 81 to 96; \<^verbatim>\<open>p['spread'] / p['price']\<close> may raise.\<close>

fun trades_loop :: "trade list \<Rightarrow> resolved_data list \<Rightarrow> py_error + trade list" where
  "trades_loop trades [] = Inr trades"
| "trades_loop trades (p # ps) =
     (if p_fused_cal p > 0.55 then
        bind_err (truediv (spread p) (price p)) (\<lambda>c.
        trades_loop (trades @ [\<lparr>direction = ''long'', confidence = p_fused_cal p,
                                return = realized_ret p, spread_cost = c\<rparr>]) ps)
      else if p_fused_cal p < 0.45 then
        bind_err (truediv (spread p) (price p)) (\<lambda>c.
        trades_loop (trades @ [\<lparr>direction = ''short'', confidence = 1 - p_fused_cal p,
                                return = - realized_ret p, spread_cost = c\<rparr>]) ps)
      else trades_loop trades ps)"

definition gross_returns :: "trade list \<Rightarrow> real list" where
  "gross_returns trades = map return trades"

definition costs :: "trade list \<Rightarrow> real list" where
  "costs trades = map spread_cost trades"

definition net_returns :: "trade list \<Rightarrow> real list" where
  "net_returns trades = map (\<lambda>(r, c). r - c) (zip (gross_returns trades) (costs trades))"

text \<open>
  The expression of line 108:
  \<^verbatim>\<open>mean(net_returns) / stdev(net_returns) if len(net_returns) > 1 else 0\<close>.
\<close>

definition sharpe_ratio :: "real list \<Rightarrow> py_error + real" where
  "sharpe_ratio nets =
     (if length nets > 1
      then bind_err (mean nets) (\<lambda>m. bind_err (stdev nets) (\<lambda>s. truediv m s))
      else Inr 0)"

record trade_stats =
  number_of_trades :: nat
  win_rate :: real
  average_gross :: real
  average_cost :: real
  average_net :: real
  sharpe :: real

text \<open>The summary printed under \<^verbatim>\<open>if trades:\<close>, in the order of lines 103 to 108.\<close>

definition trading_summary :: "trade list \<Rightarrow> py_error + trade_stats option" where
  "trading_summary trades =
     (if trades \<noteq> [] then
        bind_err (truediv (real_of_int (py_sum (map (\<lambda>r. 1) (filter (\<lambda>r. r > 0) (gross_returns trades)))))
                    (real (length trades))) (\<lambda>w.
        bind_err (mean (gross_returns trades)) (\<lambda>g.
        bind_err (mean (costs trades)) (\<lambda>c.
        bind_err (mean (net_returns trades)) (\<lambda>n.
        bind_err (sharpe_ratio (net_returns trades)) (\<lambda>sh.
        Inr (Some \<lparr>number_of_trades = length trades, win_rate = w, average_gross = g,
                   average_cost = c, average_net = n, sharpe = sh\<rparr>))))))
      else Inr None)"

definition trading_simulation :: "resolved_data list \<Rightarrow> py_error + trade_stats option" where
  "trading_simulation rows_with_returns =
     bind_err (trades_loop [] rows_with_returns) trading_summary"

subsection \<open>Market regimes (lines 110 to 125)\<close>

definition high_buying :: "resolved_data list \<Rightarrow> resolved_data list" where
  "high_buying rows_with_returns = filter (\<lambda>p. ofi p > 10) rows_with_returns"

definition high_selling :: "resolved_data list \<Rightarrow> resolved_data list" where
  "high_selling rows_with_returns = filter (\<lambda>p. ofi p < - 10) rows_with_returns"

definition neutral :: "resolved_data list \<Rightarrow> resolved_data list" where
  "neutral rows_with_returns = filter (\<lambda>p. - 10 \<le> ofi p \<and> ofi p \<le> 10) rows_with_returns"

record regime_line =
  regime_name :: string
  regime_n :: nat
  regime_accuracy :: real
  regime_avg_ret :: real

text \<open>One regime of the loop of lines 117 to 125; an empty regime prints nothing.\<close>

definition regime_stats :: "string \<Rightarrow> resolved_data list \<Rightarrow> py_error + regime_line list" where
  "regime_stats name regime_data =
     (if regime_data \<noteq> [] then
        bind_err (truediv (real_of_int (correct_count p_fused_cal regime_data))
                    (real (length regime_data))) (\<lambda>accuracy.
        bind_err (mean (map realized_ret regime_data)) (\<lambda>avg_ret.
        Inr [\<lparr>regime_name = name, regime_n = length regime_data,
              regime_accuracy = accuracy, regime_avg_ret = avg_ret\<rparr>]))
      else Inr [])"

definition regime_analysis :: "resolved_data list \<Rightarrow> py_error + regime_line list" where
  "regime_analysis rows_with_returns =
     bind_err (regime_stats ''High Buying'' (high_buying rows_with_returns)) (\<lambda>b.
     bind_err (regime_stats ''High Selling'' (high_selling rows_with_returns)) (\<lambda>s.
     bind_err (regime_stats ''Neutral'' (neutral rows_with_returns)) (\<lambda>n.
     Inr (b @ s @ n))))"

section \<open>The properties in the words of the specification\<close>

text \<open>
  The directional correctness rule: a probability above one half with an up move, or a
  probability of at most one half with no up move.
\<close>

definition spec_correct :: "real \<Rightarrow> int \<Rightarrow> bool" where
  "spec_correct v up = ((v > 0.5 \<and> up = 1) \<or> (v \<le> 0.5 \<and> up = 0))"

text \<open>
  The trades of one resolved prediction: one long trade above the long threshold 0.55,
  else one short trade below the short threshold 0.45, else none.
\<close>

definition spec_trades :: "resolved_data \<Rightarrow> trade list" where
  "spec_trades p =
     (if p_fused_cal p > 0.55
      then [\<lparr>direction = ''long'', confidence = p_fused_cal p,
             return = realized_ret p, spread_cost = spread p / price p\<rparr>]
      else if p_fused_cal p < 0.45
      then [\<lparr>direction = ''short'', confidence = 1 - p_fused_cal p,
             return = - realized_ret p, spread_cost = spread p / price p\<rparr>]
      else [])"

text \<open>The bin of a probability with ten bins: the floor of ten times it, clamped to 0..9.\<close>

definition spec_bin_index :: "real \<Rightarrow> int" where
  "spec_bin_index v = max 0 (min 9 \<lfloor>v * 10\<rfloor>)"

text \<open>
  A row is malformed when one of the eight mandatory numeric columns is missing, as an
  absent key or as an empty cell of a short line, or does not parse as a number.
\<close>

definition mandatory_columns :: "string list" where
  "mandatory_columns =
     [''mid'', ''p_fused'', ''p_fused_cal'', ''p_hcqr'', ''p_lvp'', ''p_rrf'', ''ofi_w'', ''spread'']"

definition malformed :: "(string \<Rightarrow> real option) \<Rightarrow> row \<Rightarrow> bool" where
  "malformed pf r =
     list_ex (\<lambda>k. case r k of None \<Rightarrow> True | Some None \<Rightarrow> True | Some (Some s) \<Rightarrow> pf s = None)
       mandatory_columns"

text \<open>
  The rows of the specification's Ingest have string-valued fields: no cell that the
  loop reads is \<^verbatim>\<open>None\<close>.
\<close>

definition csv_columns :: "string list" where
  "csv_columns =
     [''wall_time_iso'', ''mid'', ''p_fused'', ''p_fused_cal'', ''p_hcqr'', ''p_lvp'', ''p_rrf'',
      ''ofi_w'', ''spread'', ''realized_ret_30s'', ''realized_up_30s'']"

definition string_valued :: "row \<Rightarrow> bool" where
  "string_valued r = list_all (\<lambda>k. r k \<noteq> Some None) csv_columns"

text \<open>
  The regimes by name, with the members of each, and the line printed for a regime
  that has members: its size, the share of correct calibrated predictions and the mean
  realized return.
\<close>

definition spec_regimes :: "resolved_data list \<Rightarrow> (string \<times> resolved_data list) list" where
  "spec_regimes rows =
     [(''High Buying'', filter (\<lambda>p. ofi p > 10) rows),
      (''High Selling'', filter (\<lambda>p. ofi p < - 10) rows),
      (''Neutral'', filter (\<lambda>p. - 10 \<le> ofi p \<and> ofi p \<le> 10) rows)]"

definition spec_regime_line :: "string \<Rightarrow> resolved_data list \<Rightarrow> regime_line" where
  "spec_regime_line name ps =
     \<lparr>regime_name = name,
      regime_n = length ps,
      regime_accuracy =
        real (length (filter (\<lambda>p. spec_correct (p_fused_cal p) (realized_up p)) ps))
          / real (length ps),
      regime_avg_ret = (\<Sum>p\<leftarrow>ps. realized_ret p) / real (length ps)\<rparr>"

definition spec_regime_report :: "resolved_data list \<Rightarrow> regime_line list" where
  "spec_regime_report rows =
     concat (map (\<lambda>(name, ps). if ps = [] then [] else [spec_regime_line name ps])
               (spec_regimes rows))"

text \<open>
  The three-way outcome of a row: dropped, unresolved or resolved. \<open>row_all\<close> is what
  the row adds to the parsed predictions and \<open>row_resolved\<close> what it adds to the
  resolved ones.
\<close>

definition row_all :: "(string \<Rightarrow> real option) \<Rightarrow> row \<Rightarrow> pred_data list" where
  "row_all pf r = (case parse_pred_data pf r of Inl e \<Rightarrow> [] | Inr pd \<Rightarrow> [pd])"

definition row_resolved ::
  "(string \<Rightarrow> real option) \<Rightarrow> (string \<Rightarrow> int option) \<Rightarrow> row \<Rightarrow> resolved_data list" where
  "row_resolved pf pn r =
     (case parse_pred_data pf r of
        Inl e \<Rightarrow> []
      | Inr pd \<Rightarrow>
          (case parse_outcome pf pn r of
             Inr (Some (rr, ru)) \<Rightarrow> [pred_data.extend pd (resolved_data.fields rr ru)]
           | _ \<Rightarrow> []))"

text \<open>The mean squared error of a component against the realized direction.\<close>

definition spec_brier :: "(resolved_data \<Rightarrow> real) \<Rightarrow> resolved_data list \<Rightarrow> real" where
  "spec_brier fld rows =
     (\<Sum>p\<leftarrow>rows. (fld p - real_of_int (realized_up p))\<^sup>2) / real (length rows)"

section \<open>Example inputs\<close>

text \<open>
  Parsers of plain decimal literals, standing for \<^verbatim>\<open>float\<close> and \<^verbatim>\<open>int\<close> in the examples:
  an optional minus sign, digits, and for a float an optional point and more digits.
  Python accepts every literal they accept, with the same value, and rejects the
  non-numeric strings used below.
\<close>

definition digit_of :: "char \<Rightarrow> nat option" where
  "digit_of c = (let n = (of_char c :: nat) in if 48 \<le> n \<and> n \<le> 57 then Some (n - 48) else None)"

fun digits_val :: "nat \<Rightarrow> string \<Rightarrow> nat option" where
  "digits_val acc [] = Some acc"
| "digits_val acc (c # cs) =
     (case digit_of c of None \<Rightarrow> None | Some d \<Rightarrow> digits_val (10 * acc + d) cs)"

definition unsigned_decimal :: "string \<Rightarrow> real option" where
  "unsigned_decimal s =
     (let ip = takeWhile (\<lambda>c. c \<noteq> CHR ''.'') s;
          fp = drop 1 (dropWhile (\<lambda>c. c \<noteq> CHR ''.'') s)
      in if ip = [] \<and> fp = [] then None
         else (case (digits_val 0 ip, digits_val 0 fp) of
                 (Some i, Some f) \<Rightarrow> Some (real i + real f / 10 ^ length fp)
               | _ \<Rightarrow> None))"

definition decimal_float :: "string \<Rightarrow> real option" where
  "decimal_float s =
     (case s of
        c # t \<Rightarrow> if c = CHR ''-'' then map_option uminus (unsigned_decimal t)
                 else unsigned_decimal s
      | [] \<Rightarrow> None)"

definition unsigned_int :: "string \<Rightarrow> int option" where
  "unsigned_int s = (if s = [] then None else map_option int (digits_val 0 s))"

definition decimal_int :: "string \<Rightarrow> int option" where
  "decimal_int s =
     (case s of
        c # t \<Rightarrow> if c = CHR ''-'' then map_option uminus (unsigned_int t) else unsigned_int s
      | [] \<Rightarrow> None)"

text \<open>
  The records of the specification's examples: a long signal, a short signal, and no
  signal at a calibrated probability of exactly one half, with an order flow imbalance
  on the regime boundary.
\<close>

definition example_long :: resolved_data where
  "example_long =
     \<lparr>timestamp = Some ''2025-01-01T00:00:00'', price = 1, p_fused = 0.6, p_fused_cal = 0.6,
      p_hcqr = 0.7, p_lvp = 0.5, p_rrf = 0.4, ofi = 12, spread = 0.0005,
      realized_ret = 0.001, realized_up = 1\<rparr>"

definition example_short :: resolved_data where
  "example_short =
     \<lparr>timestamp = Some ''2025-01-01T00:00:30'', price = 1, p_fused = 0.4, p_fused_cal = 0.4,
      p_hcqr = 0.3, p_lvp = 0.5, p_rrf = 0.6, ofi = - 12, spread = 0.001,
      realized_ret = - 0.002, realized_up = 0\<rparr>"

definition example_flat :: resolved_data where
  "example_flat =
     \<lparr>timestamp = Some ''2025-01-01T00:01:00'', price = 2, p_fused = 0.5, p_fused_cal = 0.5,
      p_hcqr = 0.5, p_lvp = 0.5, p_rrf = 0.5, ofi = 10, spread = 0.001,
      realized_ret = 0, realized_up = 0\<rparr>"

text \<open>Four parsed records whose first and last prices are neither the lowest nor the highest.\<close>

definition example_prices :: "pred_data list" where
  "example_prices =
     map (\<lambda>x. \<lparr>timestamp = Some ''t'', price = x, p_fused = 0.5, p_fused_cal = 0.5, p_hcqr = 0.5,
                p_lvp = 0.5, p_rrf = 0.5, ofi = 0, spread = 0.001\<rparr>) [2, 1, 4, 3]"

text \<open>
  CSV rows: a complete row with an outcome, a row without an outcome, a row whose
  \<^verbatim>\<open>mid\<close> column is not a number, and the row of a line that ends after its first
  field.
\<close>

definition example_row :: "string \<Rightarrow> string \<Rightarrow> string \<Rightarrow> row" where
  "example_row mid ret up =
     map_of [(''wall_time_iso'', Some ''2025-01-01T00:00:00''), (''mid'', Some mid),
             (''p_fused'', Some ''0.6''), (''p_fused_cal'', Some ''0.6''),
             (''p_hcqr'', Some ''0.7''), (''p_lvp'', Some ''0.5''), (''p_rrf'', Some ''0.4''),
             (''ofi_w'', Some ''12''), (''spread'', Some ''0.0005''),
             (''realized_ret_30s'', Some ret), (''realized_up_30s'', Some up)]"

definition example_rows :: "row list" where
  "example_rows =
     [example_row ''1.5'' ''0.001'' ''1'', example_row ''abc'' ''0.001'' ''1'',
      example_row ''2'' [] [], example_row ''2.5'' ''-0.002'' ''0'']"

definition example_short_line :: row where
  "example_short_line =
     map_of [(''wall_time_iso'', Some ''2025-01-01T00:02:00''), (''mid'', None),
             (''p_fused'', None), (''p_fused_cal'', None), (''p_hcqr'', None),
             (''p_lvp'', None), (''p_rrf'', None), (''ofi_w'', None), (''spread'', None),
             (''realized_ret_30s'', None), (''realized_up_30s'', None)]"

section \<open>Auxiliary facts\<close>

subsection \<open>Exceptions and sums\<close>

lemma bind_err_Inl: "bind_err m f = Inl e \<longleftrightarrow> m = Inl e \<or> (\<exists>x. m = Inr x \<and> f x = Inl e)"
  by (cases m) (simp_all add: bind_err_def)

lemma bind_err_Inr: "bind_err m f = Inr y \<longleftrightarrow> (\<exists>x. m = Inr x \<and> f x = Inr y)"
  by (cases m) (simp_all add: bind_err_def)

lemma bind_err_Inr_simp: "bind_err (Inr x) f = f x"
  by (simp add: bind_err_def)

lemma bind_err_InlE:
  assumes "bind_err m f = Inl e"
  obtains "m = Inl e" | x where "m = Inr x" "f x = Inl e"
  using assms by (cases m) (simp_all add: bind_err_def)

lemma getitem_Inr: "getitem r k = Inr c \<longleftrightarrow> r k = Some c"
  by (simp add: getitem_def split: option.splits)

lemma getitem_Inl: "getitem r k = Inl e \<longleftrightarrow> r k = None \<and> e = KeyError"
  by (auto simp add: getitem_def split: option.splits)

lemma float_of_cell_Inr: "float_of_cell pf c = Inr x \<longleftrightarrow> (\<exists>s. c = Some s \<and> pf s = Some x)"
  by (auto simp add: float_of_cell_def float_of_str_def split: option.splits)

lemma float_of_cell_Inl:
  "float_of_cell pf c = Inl e
     \<longleftrightarrow> (c = None \<and> e = TypeError) \<or> (\<exists>s. c = Some s \<and> pf s = None \<and> e = ValueError)"
  by (auto simp add: float_of_cell_def float_of_str_def split: option.splits)

lemma int_of_cell_Inl:
  "int_of_cell pn c = Inl e
     \<longleftrightarrow> (c = None \<and> e = TypeError) \<or> (\<exists>s. c = Some s \<and> pn s = None \<and> e = ValueError)"
  by (auto simp add: int_of_cell_def int_of_str_def split: option.splits)

lemma py_sum_eq: "py_sum xs = sum_list xs"
proof -
  have "foldl (+) a xs = a + sum_list xs" for a :: "'a::monoid_add"
    by (induction xs arbitrary: a) (simp_all add: add.assoc)
  then show ?thesis by (simp add: py_sum_def)
qed

lemma py_sum_ones: "py_sum (map (\<lambda>p. 1::int) xs) = int (length xs)"
  by (simp add: py_sum_eq sum_list_triv)

lemma subseq_set: "subseq xs ys \<Longrightarrow> set xs \<subseteq> set ys"
  by (induction rule: list_emb.induct) auto

subsection \<open>Reading the rows\<close>

text \<open>
  On a row of strings the only exceptions the body of the loop raises are the two the
  handler catches.
\<close>

lemma string_valued_cell:
  "string_valued r \<Longrightarrow> k \<in> set csv_columns \<Longrightarrow> r k \<noteq> Some None"
  by (simp add: string_valued_def list_all_iff)

lemma parse_pred_data_caught:
  assumes "string_valued r" "parse_pred_data pf r = Inl e"
  shows "e = ValueError \<or> e = KeyError"
proof -
  have c: "r k \<noteq> Some None" if "k \<in> set csv_columns" for k
    using assms(1) that by (rule string_valued_cell)
  have "r ''mid'' \<noteq> Some None" "r ''p_fused'' \<noteq> Some None" "r ''p_fused_cal'' \<noteq> Some None"
    "r ''p_hcqr'' \<noteq> Some None" "r ''p_lvp'' \<noteq> Some None" "r ''p_rrf'' \<noteq> Some None"
    "r ''ofi_w'' \<noteq> Some None" "r ''spread'' \<noteq> Some None"
    by (rule c, simp add: csv_columns_def)+
  then show ?thesis
    using assms(2) unfolding parse_pred_data_def
    by (elim bind_err_InlE) (auto simp add: getitem_Inl getitem_Inr float_of_cell_Inl)
qed

lemma parse_outcome_caught:
  assumes "string_valued r" "parse_outcome pf pn r = Inl e"
  shows "e = ValueError \<or> e = KeyError"
proof -
  have c: "r k \<noteq> Some None" if "k \<in> set csv_columns" for k
    using assms(1) that by (rule string_valued_cell)
  have u: "r ''realized_up_30s'' \<noteq> Some None"
    by (rule c) (simp add: csv_columns_def)
  show ?thesis
    using assms(2) u unfolding parse_outcome_def
    by (elim bind_err_InlE)
      (auto simp add: getitem_Inl getitem_Inr float_of_cell_Inl int_of_cell_Inl has_return_def
        elim!: bind_err_InlE split: if_splits option.splits)
qed

lemma try_row_eq:
  "\<exists>eo. try_row pf pn r st = ((fst st @ row_all pf r, snd st @ row_resolved pf pn r), eo)
        \<and> (string_valued r \<longrightarrow> (\<forall>e. eo = Some e \<longrightarrow> e = ValueError \<or> e = KeyError))"
proof (cases "parse_pred_data pf r")
  case (Inl e)
  then show ?thesis
    using parse_pred_data_caught[of r pf e] by (simp add: try_row_def row_all_def row_resolved_def)
next
  case (Inr pd)
  show ?thesis
  proof (cases "parse_outcome pf pn r")
    case (Inl e)
    then show ?thesis
      using parse_outcome_caught[of r pf pn e] Inr
      by (simp add: try_row_def row_all_def row_resolved_def)
  next
    case out: (Inr o')
    then show ?thesis using Inr
      by (cases o') (auto simp add: try_row_def row_all_def row_resolved_def)
  qed
qed

text \<open>The loop either aborts or returns the contributions of the rows, in row order.\<close>

lemma ingest_loop_cases:
  "ingest_loop pf pn st rows
     = Inr (fst st @ concat (map (row_all pf) rows), snd st @ concat (map (row_resolved pf pn) rows))
   \<or> (\<exists>e. ingest_loop pf pn st rows = Inl e)"
proof (induction rows arbitrary: st)
  case Nil
  then show ?case by simp
next
  case (Cons r rows)
  obtain eo where t: "try_row pf pn r st = ((fst st @ row_all pf r, snd st @ row_resolved pf pn r), eo)"
    using try_row_eq by blast
  show ?case
    using Cons.IH[of "(fst st @ row_all pf r, snd st @ row_resolved pf pn r)"] t
    by (cases eo) auto
qed

lemma ingest_loop_eq:
  assumes "\<forall>r\<in>set rows. string_valued r"
  shows "ingest_loop pf pn st rows
     = Inr (fst st @ concat (map (row_all pf) rows), snd st @ concat (map (row_resolved pf pn) rows))"
  using assms
proof (induction rows arbitrary: st)
  case Nil
  then show ?case by simp
next
  case (Cons r rows)
  then have sv: "string_valued r" by simp
  obtain eo where t: "try_row pf pn r st = ((fst st @ row_all pf r, snd st @ row_resolved pf pn r), eo)"
    and c: "\<forall>e. eo = Some e \<longrightarrow> e = ValueError \<or> e = KeyError"
    using try_row_eq[of pf pn r st] sv by blast
  have ih: "ingest_loop pf pn st' rows
     = Inr (fst st' @ concat (map (row_all pf) rows), snd st' @ concat (map (row_resolved pf pn) rows))"
    for st' using Cons by simp
  show ?case
  proof (cases eo)
    case None
    then show ?thesis using t ih by simp
  next
    case (Some e)
    then show ?thesis using t c ih by auto
  qed
qed

lemma ingest_eq:
  "\<forall>r\<in>set rows. string_valued r \<Longrightarrow>
     ingest pf pn rows = Inr (concat (map (row_all pf) rows), concat (map (row_resolved pf pn) rows))"
  by (simp add: ingest_def ingest_loop_eq)

lemma ingest_cases:
  "ingest pf pn rows = Inr (concat (map (row_all pf) rows), concat (map (row_resolved pf pn) rows))
   \<or> (\<exists>e. ingest pf pn rows = Inl e)"
  using ingest_loop_cases[of pf pn "([], [])" rows] by (simp add: ingest_def)

lemma truncate_extend: "pred_data.truncate (pred_data.extend pd x) = pd"
  by (simp add: pred_data.truncate_def pred_data.extend_def)

lemma row_subseq: "subseq (map pred_data.truncate (row_resolved pf pn r)) (row_all pf r)"
  by (simp add: row_resolved_def row_all_def truncate_extend split: sum.splits option.splits)

lemma rows_subseq:
  "subseq (map pred_data.truncate (concat (map (row_resolved pf pn) rows))) (concat (map (row_all pf) rows))"
proof (induction rows)
  case Nil
  then show ?case by simp
next
  case (Cons r rows)
  then show ?case using row_subseq[of pf pn r] by (simp add: list_emb_append_mono)
qed

lemma ingest_loop_append:
  "ingest_loop pf pn st (xs @ ys)
     = (case ingest_loop pf pn st xs of Inl e \<Rightarrow> Inl e | Inr st' \<Rightarrow> ingest_loop pf pn st' ys)"
  by (induction xs arbitrary: st) (simp_all split: prod.splits option.splits)

lemma malformed_parse:
  assumes "malformed pf r"
  shows "\<exists>e. parse_pred_data pf r = Inl e"
proof (cases "parse_pred_data pf r")
  case (Inl e)
  then show ?thesis by blast
next
  case (Inr pd)
  then have "\<not> malformed pf r"
    unfolding parse_pred_data_def bind_err_Inr getitem_Inr float_of_cell_Inr
    by (auto simp add: malformed_def mandatory_columns_def)
  with assms show ?thesis by simp
qed

lemma malformed_row:
  assumes "malformed pf r"
  shows "row_all pf r = []" and "row_resolved pf pn r = []"
  using malformed_parse[OF assms] by (auto simp add: row_all_def row_resolved_def)

text \<open>A malformed row of strings is skipped, wherever it stands.\<close>

lemma malformed_string_row_skipped:
  assumes "string_valued r" "malformed pf r"
  shows "ingest pf pn (before @ r # after) = ingest pf pn (before @ after)"
proof -
  have step: "ingest_loop pf pn st (r # after) = ingest_loop pf pn st after" for st
  proof -
    obtain eo where t: "try_row pf pn r st = ((fst st @ row_all pf r, snd st @ row_resolved pf pn r), eo)"
      and c: "\<forall>e. eo = Some e \<longrightarrow> e = ValueError \<or> e = KeyError"
      using try_row_eq[of pf pn r st] assms(1) by blast
    have t': "try_row pf pn r st = (st, eo)"
      using t malformed_row[OF assms(2)] by simp
    show ?thesis using t' c by (cases eo) auto
  qed
  show ?thesis
    unfolding ingest_def ingest_loop_append[of pf pn _ before] step ..
qed

lemmas example_parsers =
  decimal_float_def unsigned_decimal_def decimal_int_def unsigned_int_def digit_of_def

lemma example_malformed: "malformed decimal_float (example_row ''abc'' ''0.001'' ''1'')"
  by (simp add: malformed_def mandatory_columns_def example_row_def example_parsers)

lemma example_string_valued: "string_valued (example_row mid ret up)"
  by (simp add: string_valued_def csv_columns_def example_row_def)

lemma example_ingest:
  "ingest decimal_float decimal_int
     [example_row ''1.5'' ''0.001'' ''1'', example_row ''2'' [] [], example_row ''2.5'' ''-0.002'' ''0'']
   = Inr (map (\<lambda>x. \<lparr>timestamp = Some ''2025-01-01T00:00:00'', price = x, p_fused = 0.6,
                      p_fused_cal = 0.6, p_hcqr = 0.7, p_lvp = 0.5, p_rrf = 0.4, ofi = 12,
                      spread = 0.0005\<rparr>) [1.5, 2, 2.5],
          [\<lparr>timestamp = Some ''2025-01-01T00:00:00'', price = 1.5, p_fused = 0.6,
            p_fused_cal = 0.6, p_hcqr = 0.7, p_lvp = 0.5, p_rrf = 0.4, ofi = 12,
            spread = 0.0005, realized_ret = 0.001, realized_up = 1\<rparr>,
           \<lparr>timestamp = Some ''2025-01-01T00:00:00'', price = 2.5, p_fused = 0.6,
            p_fused_cal = 0.6, p_hcqr = 0.7, p_lvp = 0.5, p_rrf = 0.4, ofi = 12,
            spread = 0.0005, realized_ret = - 0.002, realized_up = 0\<rparr>])"
  by (simp add: ingest_def try_row_def parse_pred_data_def parse_outcome_def bind_err_def
      getitem_def float_of_cell_def int_of_cell_def float_of_str_def int_of_str_def has_return_def
      strip_def isspace_def example_row_def example_parsers pred_data.extend_def
      resolved_data.fields_def)

lemma example_rows_ingest:
  "ingest decimal_float decimal_int example_rows
     = ingest decimal_float decimal_int
         [example_row ''1.5'' ''0.001'' ''1'', example_row ''2'' [] [],
          example_row ''2.5'' ''-0.002'' ''0'']"
  using malformed_string_row_skipped[OF example_string_valued example_malformed,
      of decimal_int "[example_row ''1.5'' ''0.001'' ''1'']"
      "[example_row ''2'' [] [], example_row ''2.5'' ''-0.002'' ''0'']"]
  by (simp add: example_rows_def)

lemma short_line_raises: "try_row pf pn example_short_line st = (st, Some TypeError)"
  by (simp add: try_row_def parse_pred_data_def bind_err_def getitem_def float_of_cell_def
      example_short_line_def)

subsection \<open>Trades and the Sharpe ratio\<close>

lemma trades_loop_acc:
  "\<forall>p\<in>set rows. price p \<noteq> 0 \<Longrightarrow>
     trades_loop trades rows = Inr (trades @ concat (map spec_trades rows))"
proof (induction rows arbitrary: trades)
  case Nil
  then show ?case by simp
next
  case (Cons p rows)
  then have ih: "\<And>ts. trades_loop ts rows = Inr (ts @ concat (map spec_trades rows))"
    and pr: "price p \<noteq> 0" by simp_all
  have "trades_loop trades (p # rows) = trades_loop (trades @ spec_trades p) rows"
    using pr by (simp add: truediv_def bind_err_Inr_simp spec_trades_def)
  then show ?case by (simp add: ih)
qed

lemma net_returns_eq: "net_returns trades = map (\<lambda>t. return t - spread_cost t) trades"
  by (induction trades) (simp_all add: net_returns_def gross_returns_def costs_def)

text \<open>Where the guard of line 108 does what it is there for.\<close>

lemma sharpe_small: "length nets < 2 \<Longrightarrow> sharpe_ratio nets = Inr 0"
  by (simp add: sharpe_ratio_def)

lemma sharpe_defined:
  assumes "2 \<le> length nets" "stdev nets = Inr s" "s \<noteq> 0" "mean nets = Inr m"
  shows "sharpe_ratio nets = Inr (m / s)"
  using assms by (simp add: sharpe_ratio_def bind_err_def truediv_def)

lemma stdev_two_equal: "stdev [x, x] = Inr 0"
  by (simp add: stdev_def py_sum_def Let_def)

lemma sharpe_two_equal: "sharpe_ratio [x, x] = Inl ZeroDivisionError"
  by (simp add: sharpe_ratio_def mean_def stdev_two_equal bind_err_def truediv_def)

subsection \<open>Accuracy and Brier score\<close>

lemma correct_count_bounds:
  "0 \<le> correct_count fld rows \<and> correct_count fld rows \<le> int (length rows)"
  by (simp add: correct_count_def py_sum_ones)

lemma brier_term_bounds:
  assumes "0 \<le> v" "v \<le> 1" "u = 0 \<or> u = 1"
  shows "0 \<le> (v - real_of_int u)\<^sup>2 \<and> (v - real_of_int u)\<^sup>2 \<le> 1"
proof -
  have "\<bar>v - real_of_int u\<bar> \<le> 1" using assms by auto
  then have "(v - real_of_int u)\<^sup>2 \<le> 1" by (simp add: abs_square_le_1)
  then show ?thesis by simp
qed

lemma brier_sum_bounds:
  assumes "\<forall>p\<in>set rows. 0 \<le> fld p \<and> fld p \<le> 1 \<and> (realized_up p = 0 \<or> realized_up p = 1)"
  shows "0 \<le> brier_sum fld rows \<and> brier_sum fld rows \<le> real (length rows)"
  using assms
proof (induction rows)
  case Nil
  then show ?case by (simp add: brier_sum_def py_sum_eq)
next
  case (Cons p rows)
  then have ih: "0 \<le> brier_sum fld rows \<and> brier_sum fld rows \<le> real (length rows)"
    and b: "0 \<le> (fld p - real_of_int (realized_up p))\<^sup>2
          \<and> (fld p - real_of_int (realized_up p))\<^sup>2 \<le> 1"
    using brier_term_bounds[of "fld p" "realized_up p"] by simp_all
  have "brier_sum fld (p # rows) = (fld p - real_of_int (realized_up p))\<^sup>2 + brier_sum fld rows"
    by (simp add: brier_sum_def py_sum_eq)
  with ih b show ?case by simp
qed

subsection \<open>Calibration bins\<close>

lemma bins_append_keys: "fst ` set (bins_append b k p) = insert k (fst ` set b)"
  by (induction b k p rule: bins_append.induct) auto

lemma bins_append_distinct: "distinct (map fst b) \<Longrightarrow> distinct (map fst (bins_append b k p))"
proof (induction b k p rule: bins_append.induct)
  case (1 k p)
  then show ?case by simp
next
  case (2 k' v b k p)
  then show ?case by (auto simp add: bins_append_keys)
qed

lemma bins_append_get:
  "bins_get (bins_append b k p) j = (if j = k then bins_get b k @ [p] else bins_get b j)"
  by (induction b k p rule: bins_append.induct) (auto simp add: bins_get_def)

lemma foldl_bins_keys:
  "fst ` set (foldl (\<lambda>bins p. bins_append bins (bin_idx p) p) b ps)
     = fst ` set b \<union> bin_idx ` set ps"
  by (induction ps arbitrary: b) (simp_all add: bins_append_keys)

lemma foldl_bins_distinct:
  "distinct (map fst b)
     \<Longrightarrow> distinct (map fst (foldl (\<lambda>bins p. bins_append bins (bin_idx p) p) b ps))"
  by (induction ps arbitrary: b) (simp_all add: bins_append_distinct)

lemma foldl_bins_get:
  "bins_get (foldl (\<lambda>bins p. bins_append bins (bin_idx p) p) b ps) k
     = bins_get b k @ filter (\<lambda>p. bin_idx p = k) ps"
  by (induction ps arbitrary: b) (auto simp add: bins_append_get)

lemma build_bins_get: "bins_get (build_bins ps) k = filter (\<lambda>p. bin_idx p = k) ps"
  by (simp add: build_bins_def foldl_bins_get) (simp add: bins_get_def)

lemma build_bins_keys: "set (map fst (build_bins ps)) = bin_idx ` set ps"
  by (simp add: build_bins_def foldl_bins_keys)

lemma build_bins_distinct: "distinct (map fst (build_bins ps))"
  by (simp add: build_bins_def foldl_bins_distinct)

lemma calibration_counts:
  "sum_list (map bin_count (concat (map (calibration_line bins) ks)))
     = sum_list (map (\<lambda>k. length (bins_get bins k)) ks)"
  by (induction ks) (simp_all add: calibration_line_def Let_def)

lemma calibration_indices:
  "\<forall>k\<in>set ks. bins_get bins k \<noteq> [] \<Longrightarrow>
     map bin_index (concat (map (calibration_line bins) ks)) = ks"
  by (induction ks) (simp_all add: calibration_line_def Let_def)

lemma length_by_bins:
  "(\<Sum>k\<in>bin_idx ` set ps. length (filter (\<lambda>p. bin_idx p = k) ps)) = length ps"
proof (induction ps)
  case Nil
  then show ?case by simp
next
  case (Cons p ps)
  let ?K = "bin_idx ` set ps"
  have fin: "finite (insert (bin_idx p) ?K)" by simp
  have "(\<Sum>k\<in>insert (bin_idx p) ?K. length (filter (\<lambda>q. bin_idx q = k) (p # ps)))
      = (\<Sum>k\<in>insert (bin_idx p) ?K.
           (if k = bin_idx p then 1 else 0) + length (filter (\<lambda>q. bin_idx q = k) ps))"
    by (rule sum.cong) auto
  also have "\<dots> = (\<Sum>k\<in>insert (bin_idx p) ?K. if k = bin_idx p then 1 else 0)
      + (\<Sum>k\<in>insert (bin_idx p) ?K. length (filter (\<lambda>q. bin_idx q = k) ps))"
    by (simp add: sum.distrib)
  also have "(\<Sum>k\<in>insert (bin_idx p) ?K. if k = bin_idx p then 1 else 0) = (1::nat)"
    using fin by (simp add: sum.delta del: sum.insert)
  also have "(\<Sum>k\<in>insert (bin_idx p) ?K. length (filter (\<lambda>q. bin_idx q = k) ps))
      = (\<Sum>k\<in>?K. length (filter (\<lambda>q. bin_idx q = k) ps))"
  proof (cases "bin_idx p \<in> ?K")
    case True
    then show ?thesis by (simp add: insert_absorb)
  next
    case False
    then have "\<forall>q\<in>set ps. bin_idx q \<noteq> bin_idx p" by (metis imageI)
    then have "filter (\<lambda>q. bin_idx q = bin_idx p) ps = []"
      by (simp add: filter_empty_conv)
    with False show ?thesis by simp
  qed
  finally show ?case using Cons.IH by simp
qed

text \<open>
  Below a probability of one the bin of the code is the clamped bin; the two differ at
  one, where the code opens an eleventh bin.
\<close>

lemma bin_idx_in_range:
  assumes "0 \<le> p_cal p" "p_cal p < 1"
  shows "bin_idx p = spec_bin_index (p_cal p)"
proof -
  have "0 \<le> p_cal p * 10" "p_cal p * 10 < 10" using assms by simp_all
  then have "0 \<le> \<lfloor>p_cal p * 10\<rfloor>" "\<lfloor>p_cal p * 10\<rfloor> \<le> 9" by linarith+
  then show ?thesis using assms by (simp add: bin_idx_def int_of_float_def spec_bin_index_def)
qed

subsection \<open>Market regimes\<close>

lemma comp_correct_spec: "comp_correct fld = (\<lambda>p. spec_correct (fld p) (realized_up p))"
  by (rule ext) (simp add: comp_correct_def spec_correct_def)

lemma regime_stats_eq:
  "regime_stats name ps = Inr (if ps = [] then [] else [spec_regime_line name ps])"
proof (cases "ps = []")
  case True
  then show ?thesis by (simp add: regime_stats_def)
next
  case False
  then have n: "real (length ps) \<noteq> 0" by simp
  have m: "mean (map realized_ret ps) = Inr ((\<Sum>p\<leftarrow>ps. realized_ret p) / real (length ps))"
    using False by (simp add: mean_def py_sum_eq)
  show ?thesis
    using False n
    by (simp add: regime_stats_def truediv_def bind_err_Inr_simp m spec_regime_line_def
        correct_count_def py_sum_ones comp_correct_spec)
qed

lemma regime_analysis_eq: "regime_analysis rows = Inr (spec_regime_report rows)"
  by (simp add: regime_analysis_def regime_stats_eq bind_err_Inr_simp spec_regime_report_def
      spec_regimes_def high_buying_def high_selling_def neutral_def)

lemma regimes_partition:
  "length (high_buying rows) + length (high_selling rows) + length (neutral rows) = length rows"
  by (induction rows) (auto simp add: high_buying_def high_selling_def neutral_def)

section \<open>The claims\<close>

text \<open>
  Claim C1. In both scripts a prediction counts as correct exactly when the component
  value is above 0.5 and the realized direction is 1, or the value is at most 0.5 and the
  realized direction is 0. At a value of exactly 0.5 it is correct exactly when the
  realized direction is 0. The count of correct predictions of a component is the number
  of resolved predictions that satisfy the rule, and in \<^verbatim>\<open>analyze_performance.py\<close> the
  flag agrees with the predicted direction.
\<close>

theorem directional_correctness:
  "comp_correct fld p = spec_correct (fld p) (realized_up p)
   \<and> comp_correct p_fused_cal (p\<lparr>p_fused_cal := 0.5\<rparr>) = (realized_up p = 0)
   \<and> correct_count fld rows = int (length (filter (\<lambda>p. spec_correct (fld p) (realized_up p)) rows))
   \<and> correct (make_prediction pc rr ru sp) = spec_correct pc ru
   \<and> correct (make_prediction 0.5 rr ru sp) = (ru = 0)
   \<and> correct (make_prediction pc rr ru sp) = (ru = predicted_up (make_prediction pc rr ru sp))"
proof -
  have eq: "comp_correct fld = (\<lambda>p. spec_correct (fld p) (realized_up p))"
    by (rule ext) (simp add: comp_correct_def spec_correct_def)
  have cnt: "correct_count fld rows
      = int (length (filter (\<lambda>p. spec_correct (fld p) (realized_up p)) rows))"
    unfolding correct_count_def py_sum_ones eq ..
  have half: "comp_correct p_fused_cal (p\<lparr>p_fused_cal := 0.5\<rparr>) = (realized_up p = 0)"
    by (simp add: comp_correct_def)
  have perf: "correct (make_prediction pc rr ru sp) = spec_correct pc ru"
    by (simp add: make_prediction_def spec_correct_def)
  have perf_half: "correct (make_prediction 0.5 rr ru sp) = (ru = 0)"
    by (simp add: make_prediction_def)
  have pred: "correct (make_prediction pc rr ru sp) = (ru = predicted_up (make_prediction pc rr ru sp))"
    by (auto simp add: make_prediction_def)
  show ?thesis using eq cnt half perf perf_half pred by (simp only: simp_thms)
qed

text \<open>
  Claim C2. For resolved predictions with a price other than zero (the data model has
  every price above zero), the trading loop returns, in order, for each prediction one
  long trade with the realized return when the calibrated probability is above 0.55, one
  short trade with the negated realized return when it is below 0.45, and nothing
  otherwise; each trade carries the cost spread / price, and the net return of a trade
  is its return minus its cost. A prediction at exactly 0.5 gives no trade, whatever its
  price.
\<close>

theorem trading_simulation_trades:
  assumes "\<forall>p\<in>set rows. price p \<noteq> 0"
  shows "trades_loop [] rows = Inr (concat (map spec_trades rows))
       \<and> net_returns (concat (map spec_trades rows))
           = map (\<lambda>t. return t - spread_cost t) (concat (map spec_trades rows))
       \<and> trades_loop [] [p\<lparr>p_fused_cal := 0.5\<rparr>] = Inr []"
  using trades_loop_acc[OF assms, of "[]"] by (simp add: net_returns_eq)

theorem trading_simulation_trades_witness:
  "price example_long \<noteq> 0 \<and> price example_short \<noteq> 0 \<and> price example_flat \<noteq> 0
   \<and> trades_loop [] [example_long, example_short, example_flat]
       = Inr [\<lparr>direction = ''long'', confidence = 0.6, return = 0.001, spread_cost = 0.0005\<rparr>,
              \<lparr>direction = ''short'', confidence = 0.6, return = 0.002, spread_cost = 0.001\<rparr>]
   \<and> net_returns [\<lparr>direction = ''long'', confidence = 0.6, return = 0.001, spread_cost = 0.0005\<rparr>,
              \<lparr>direction = ''short'', confidence = 0.6, return = 0.002, spread_cost = 0.001\<rparr>]
       = [0.0005, 0.001]"
proof -
  have h: "\<forall>p\<in>set [example_long, example_short, example_flat]. price p \<noteq> 0"
    by (simp add: example_long_def example_short_def example_flat_def)
  have s: "concat (map spec_trades [example_long, example_short, example_flat])
      = [\<lparr>direction = ''long'', confidence = 0.6, return = 0.001, spread_cost = 0.0005\<rparr>,
         \<lparr>direction = ''short'', confidence = 0.6, return = 0.002, spread_cost = 0.001\<rparr>]"
    by (simp add: spec_trades_def example_long_def example_short_def example_flat_def)
  show ?thesis
    using trading_simulation_trades[OF h, of example_flat] unfolding s
    by (simp add: example_long_def example_short_def example_flat_def)
qed

text \<open>
  Claim C3. The Sharpe ratio is guarded by the number of trades only. With two trades of
  equal net return the sample standard deviation is zero and the division of line 108
  raises ZeroDivisionError: for every pair of equal net returns, and for the trading
  simulation of two copies of the long example.
\<close>

theorem sharpe_zero_variance:
  "sharpe_ratio [x, x] = Inl ZeroDivisionError
   \<and> trading_simulation [example_long, example_long] = Inl ZeroDivisionError"
proof -
  have t: "trades_loop [] [example_long, example_long]
      = Inr [\<lparr>direction = ''long'', confidence = 0.6, return = 0.001, spread_cost = 0.0005\<rparr>,
             \<lparr>direction = ''long'', confidence = 0.6, return = 0.001, spread_cost = 0.0005\<rparr>]"
    by (simp add: example_long_def truediv_def bind_err_def)
  have n: "net_returns [\<lparr>direction = ''long'', confidence = 0.6, return = 0.001, spread_cost = 0.0005\<rparr>,
             \<lparr>direction = ''long'', confidence = 0.6, return = 0.001, spread_cost = 0.0005\<rparr>]
       = [0.0005, 0.0005]"
    by (simp add: net_returns_def gross_returns_def costs_def)
  have "trading_simulation [example_long, example_long] = Inl ZeroDivisionError"
    unfolding trading_simulation_def t bind_err_Inr_simp trading_summary_def n sharpe_two_equal
    by (simp add: bind_err_def truediv_def mean_def gross_returns_def costs_def py_sum_def)
  then show ?thesis by (simp add: sharpe_two_equal)
qed

text \<open>
  Claim C4. The code does not clamp the bin index. A prediction with a calibrated
  probability of exactly 1 goes to bin 10, where the clamped index is 9, and the
  calibration table prints that bin with an expected share of 1.05.
\<close>

theorem top_bin_not_clamped:
  "bin_idx (make_prediction 1 rr ru sp) = 10
   \<and> spec_bin_index 1 = 9
   \<and> map bin_index (calibration_table [make_prediction 1 rr ru sp]) = [10]
   \<and> map expected_up (calibration_table [make_prediction 1 rr ru sp]) = [1.05]"
  by (simp add: bin_idx_def make_prediction_def int_of_float_def spec_bin_index_def
      calibration_table_def build_bins_def calibration_line_def bins_get_def)

text \<open>
  Claim C5. Whenever reading the rows returns, the resolved predictions, as the
  dictionaries they share with the parsed predictions, are a subsequence of the parsed
  predictions: each occurs among them, in the same relative order, and both lists are
  the contributions of the rows in row order. For rows with string-valued fields, and
  every pair of parsers, reading the rows does return. The loop can end without
  returning only through the TypeError of a \<^verbatim>\<open>None\<close> cell, and then there is no pair
  of lists.
\<close>

theorem ingest_resolved_subsequence:
  "(\<forall>all_predictions rows_with_returns.
      ingest pf pn rows = Inr (all_predictions, rows_with_returns) \<longrightarrow>
        subseq (map pred_data.truncate rows_with_returns) all_predictions
        \<and> set (map pred_data.truncate rows_with_returns) \<subseteq> set all_predictions
        \<and> all_predictions = concat (map (row_all pf) rows)
        \<and> rows_with_returns = concat (map (row_resolved pf pn) rows))
   \<and> ((\<forall>r\<in>set rows. string_valued r) \<longrightarrow>
        (\<exists>all_predictions rows_with_returns.
           ingest pf pn rows = Inr (all_predictions, rows_with_returns)
           \<and> subseq (map pred_data.truncate rows_with_returns) all_predictions
           \<and> set (map pred_data.truncate rows_with_returns) \<subseteq> set all_predictions
           \<and> all_predictions = concat (map (row_all pf) rows)
           \<and> rows_with_returns = concat (map (row_resolved pf pn) rows)))"
proof -
  let ?a = "concat (map (row_all pf) rows)" and ?r = "concat (map (row_resolved pf pn) rows)"
  have sub: "subseq (map pred_data.truncate ?r) ?a" by (rule rows_subseq)
  then have mem: "set (map pred_data.truncate ?r) \<subseteq> set ?a"
    by (rule subseq_set)
  have part: "\<forall>a r. ingest pf pn rows = Inr (a, r) \<longrightarrow>
      subseq (map pred_data.truncate r) a \<and> set (map pred_data.truncate r) \<subseteq> set a
      \<and> a = ?a \<and> r = ?r"
  proof (intro allI impI)
    fix a r
    assume "ingest pf pn rows = Inr (a, r)"
    with ingest_cases[of pf pn rows] have "a = ?a" "r = ?r" by auto
    with sub mem show "subseq (map pred_data.truncate r) a
        \<and> set (map pred_data.truncate r) \<subseteq> set a \<and> a = ?a \<and> r = ?r"
      by (simp only: simp_thms)
  qed
  have tot: "(\<forall>r\<in>set rows. string_valued r) \<longrightarrow>
      (\<exists>a r. ingest pf pn rows = Inr (a, r)
         \<and> subseq (map pred_data.truncate r) a \<and> set (map pred_data.truncate r) \<subseteq> set a
         \<and> a = ?a \<and> r = ?r)"
    using sub mem by (simp add: ingest_eq)
  from part tot show ?thesis by (rule conjI)
qed

theorem ingest_resolved_subsequence_witness:
  "list_all string_valued example_rows
   \<and> (\<exists>all_predictions rows_with_returns.
     ingest decimal_float decimal_int example_rows = Inr (all_predictions, rows_with_returns)
     \<and> subseq (map pred_data.truncate rows_with_returns) all_predictions
     \<and> map price all_predictions = [1.5, 2, 2.5]
     \<and> map price rows_with_returns = [1.5, 2.5])"
proof -
  have sv: "\<forall>r\<in>set example_rows. string_valued r"
    by (simp add: example_rows_def example_string_valued)
  then obtain a r where i: "ingest decimal_float decimal_int example_rows = Inr (a, r)"
    and s: "subseq (map pred_data.truncate r) a"
    using ingest_resolved_subsequence[of decimal_float decimal_int example_rows] by blast
  from i have "map price a = [1.5, 2, 2.5]" "map price r = [1.5, 2.5]"
    unfolding example_rows_ingest example_ingest by auto
  with s sv show ?thesis unfolding i by (simp add: list_all_iff)
qed

text \<open>
  Claim C6. A line that ends after its first field gives a row in which every mandatory
  numeric field is missing. The loop does not drop it: \<^verbatim>\<open>float(None)\<close> raises TypeError,
  which the handler of line 41 does not catch, so reading the rows ends with that
  exception, whatever follows the row and also after rows that were read or dropped.
\<close>

theorem short_line_not_dropped:
  "malformed pf example_short_line
   \<and> ingest pf pn (example_short_line # rows) = Inl TypeError
   \<and> ingest decimal_float decimal_int (example_rows @ [example_short_line]) = Inl TypeError"
proof -
  have m: "malformed pf example_short_line"
    by (simp add: malformed_def mandatory_columns_def example_short_line_def)
  have a: "ingest_loop pf pn st (example_short_line # rows) = Inl TypeError" for pf pn st rows
    by (simp add: short_line_raises)
  have "\<forall>r\<in>set example_rows. string_valued r"
    by (simp add: example_rows_def example_string_valued)
  then obtain st where e: "ingest_loop decimal_float decimal_int ([], []) example_rows = Inr st"
    using ingest_loop_eq[of example_rows decimal_float decimal_int "([], [])"] by blast
  have b: "ingest decimal_float decimal_int (example_rows @ [example_short_line]) = Inl TypeError"
    unfolding ingest_def ingest_loop_append[of _ _ _ example_rows] e
    by (simp add: short_line_raises)
  show ?thesis using m a[of pf pn "([], [])" rows] b by (simp add: ingest_def)
qed

text \<open>
  Claim C7. The regime analysis never raises, and what it prints is the report of the
  three named regimes: the line High Buying for the predictions with an order flow
  imbalance above 10, the line High Selling for those below -10, the line Neutral for
  those from -10 to 10, both included, each with its size, accuracy and mean return, and
  no line for a regime without members. A resolved prediction is in exactly the regime
  of its imbalance, and the three regimes together hold every prediction once. A
  prediction with an imbalance of exactly 10 is neutral and not high buying, and alone
  it gives the one line of the neutral regime.
\<close>

theorem regime_boundaries:
  assumes "p \<in> set rows"
  shows "regime_analysis rows = Inr (spec_regime_report rows)
       \<and> (p \<in> set (high_buying rows) \<longleftrightarrow> ofi p > 10)
       \<and> (p \<in> set (high_selling rows) \<longleftrightarrow> ofi p < - 10)
       \<and> (p \<in> set (neutral rows) \<longleftrightarrow> - 10 \<le> ofi p \<and> ofi p \<le> 10)
       \<and> length (high_buying rows) + length (high_selling rows) + length (neutral rows)
           = length rows
       \<and> neutral [p\<lparr>ofi := 10\<rparr>] = [p\<lparr>ofi := 10\<rparr>]
       \<and> high_buying [p\<lparr>ofi := 10\<rparr>] = []
       \<and> regime_analysis [p\<lparr>ofi := 10\<rparr>] = Inr [spec_regime_line ''Neutral'' [p\<lparr>ofi := 10\<rparr>]]"
proof -
  have one: "regime_analysis [p\<lparr>ofi := 10\<rparr>] = Inr [spec_regime_line ''Neutral'' [p\<lparr>ofi := 10\<rparr>]]"
    by (simp add: regime_analysis_eq spec_regime_report_def spec_regimes_def)
  show ?thesis
    using assms one regimes_partition[of rows]
    by (simp add: regime_analysis_eq) (simp add: high_buying_def high_selling_def neutral_def)
qed

theorem regime_boundaries_witness:
  "example_flat \<in> set [example_long, example_short, example_flat]
   \<and> ofi example_flat = 10
   \<and> regime_analysis [example_long, example_short, example_flat]
       = Inr [\<lparr>regime_name = ''High Buying'', regime_n = 1, regime_accuracy = 1,
                regime_avg_ret = 0.001\<rparr>,
              \<lparr>regime_name = ''High Selling'', regime_n = 1, regime_accuracy = 1,
                regime_avg_ret = - 0.002\<rparr>,
              \<lparr>regime_name = ''Neutral'', regime_n = 1, regime_accuracy = 1,
                regime_avg_ret = 0\<rparr>]
   \<and> example_flat \<in> set (neutral [example_long, example_short, example_flat])
   \<and> example_flat \<notin> set (high_buying [example_long, example_short, example_flat])
   \<and> example_flat \<notin> set (high_selling [example_long, example_short, example_flat])"
proof -
  have h: "example_flat \<in> set [example_long, example_short, example_flat]" by simp
  have o: "ofi example_flat = 10" by (simp add: example_flat_def)
  have r: "spec_regime_report [example_long, example_short, example_flat]
      = [\<lparr>regime_name = ''High Buying'', regime_n = 1, regime_accuracy = 1,
           regime_avg_ret = 0.001\<rparr>,
         \<lparr>regime_name = ''High Selling'', regime_n = 1, regime_accuracy = 1,
           regime_avg_ret = - 0.002\<rparr>,
         \<lparr>regime_name = ''Neutral'', regime_n = 1, regime_accuracy = 1,
           regime_avg_ret = 0\<rparr>]"
    by (simp add: spec_regime_report_def spec_regimes_def spec_regime_line_def spec_correct_def
        example_long_def example_short_def example_flat_def)
  show ?thesis using regime_boundaries[OF h] h o unfolding r by simp
qed

text \<open>
  Claim C8. With no parsed prediction the market movement section is left out. With at
  least one, and a first price other than zero (the data model has every price above
  zero), the section gives the first price, the last price and the change
  (last - first) / first, taken in sequence order.
\<close>

theorem market_movement_first_last:
  "market_movement [] = Inr None
   \<and> (all_predictions \<noteq> [] \<and> price (hd all_predictions) \<noteq> 0 \<longrightarrow>
        (\<exists>m. market_movement all_predictions = Inr (Some m)
           \<and> start_price m = price (hd all_predictions)
           \<and> end_price m = price (last all_predictions)
           \<and> price_change m
               = (price (last all_predictions) - price (hd all_predictions))
                   / price (hd all_predictions)))"
  by (cases all_predictions) (simp_all add: market_movement_def bind_err_def truediv_def last_map)

theorem market_movement_first_last_witness:
  "example_prices \<noteq> [] \<and> price (hd example_prices) \<noteq> 0
   \<and> market_movement example_prices
       = Inr (Some \<lparr>start_price = 2, end_price = 3, price_change = 0.5,
                    min_price = 1, max_price = 4\<rparr>)"
proof -
  have h: "example_prices \<noteq> [] \<and> price (hd example_prices) \<noteq> 0"
    by (simp add: example_prices_def)
  have v: "market_movement example_prices
       = Inr (Some \<lparr>start_price = 2, end_price = 3, price_change = 0.5,
                    min_price = 1, max_price = 4\<rparr>)"
    by (simp add: example_prices_def market_movement_def truediv_def bind_err_def)
  from market_movement_first_last[of example_prices] h v show ?thesis by simp
qed

text \<open>
  Claim C9. For a non-empty list of resolved predictions whose component values lie
  between 0 and 1 and whose realized directions are 0 or 1, the component performance
  is computed without an exception, the accuracy lies between 0 and 1, and the Brier
  score is the mean of the squared differences between component value and realized
  direction and lies between 0 and 1.
\<close>

theorem component_accuracy_brier_range:
  assumes "rows \<noteq> []"
    and "\<forall>p\<in>set rows. 0 \<le> fld p \<and> fld p \<le> 1 \<and> (realized_up p = 0 \<or> realized_up p = 1)"
  shows "\<exists>accuracy brier.
           component_performance fld rows = Inr (accuracy, brier)
           \<and> 0 \<le> accuracy \<and> accuracy \<le> 1
           \<and> brier = spec_brier fld rows
           \<and> 0 \<le> brier \<and> brier \<le> 1"
proof -
  have n: "0 < real (length rows)" using assms(1) by simp
  have perf: "component_performance fld rows
      = Inr (real_of_int (correct_count fld rows) / real (length rows),
             brier_sum fld rows / real (length rows))"
    using n by (simp add: component_performance_def truediv_def bind_err_def)
  have c: "0 \<le> real_of_int (correct_count fld rows)"
      "real_of_int (correct_count fld rows) \<le> real (length rows)"
    using correct_count_bounds[of fld rows] by linarith+
  have acc: "0 \<le> real_of_int (correct_count fld rows) / real (length rows)"
      "real_of_int (correct_count fld rows) / real (length rows) \<le> 1"
    using c n by simp_all
  have br: "0 \<le> brier_sum fld rows / real (length rows)"
      "brier_sum fld rows / real (length rows) \<le> 1"
    using brier_sum_bounds[OF assms(2)] n by simp_all
  have sp: "brier_sum fld rows / real (length rows) = spec_brier fld rows"
    by (simp add: brier_sum_def spec_brier_def py_sum_eq)
  show ?thesis using perf acc br sp by simp
qed

theorem component_accuracy_brier_range_witness:
  "[example_long, example_short] \<noteq> []
   \<and> component_performance p_hcqr [example_long, example_short] = Inr (1, 0.09)
   \<and> (0::real) \<le> 1 \<and> (0::real) \<le> 0.09 \<and> (0.09::real) \<le> 1
   \<and> spec_brier p_hcqr [example_long, example_short] = 0.09"
proof -
  have h1: "[example_long, example_short] \<noteq> []" by simp
  have h2: "\<forall>p\<in>set [example_long, example_short].
      0 \<le> p_hcqr p \<and> p_hcqr p \<le> 1 \<and> (realized_up p = 0 \<or> realized_up p = 1)"
    by (simp add: example_long_def example_short_def)
  have v: "spec_brier p_hcqr [example_long, example_short] = 0.09"
    by (simp add: spec_brier_def example_long_def example_short_def power2_eq_square)
  have a: "component_performance p_hcqr [example_long, example_short] = Inr (1, 0.09)"
    by (simp add: component_performance_def correct_count_def brier_sum_def comp_correct_def
        py_sum_def truediv_def bind_err_def example_long_def example_short_def power2_eq_square)
  show ?thesis
    using component_accuracy_brier_range[OF h1 h2] v a by simp
qed

text \<open>
  Claim C10. The calibration binning of the code, which does not clamp, puts every
  parsed prediction in the one bin of its index: bin \<open>k\<close> holds, in order, exactly the
  predictions whose index is \<open>k\<close>. The printed table has one line for each index that
  occurs, in increasing order, and the counts of its lines add up to the number of
  parsed predictions.
\<close>

theorem calibration_bins_partition:
  "sum_list (map bin_count (calibration_table predictions)) = length predictions
   \<and> bins_get (build_bins predictions) k = filter (\<lambda>p. bin_idx p = k) predictions
   \<and> set (map bin_index (calibration_table predictions)) = bin_idx ` set predictions
   \<and> distinct (map bin_index (calibration_table predictions))
   \<and> sorted (map bin_index (calibration_table predictions))"
proof -
  let ?bins = "build_bins predictions"
  let ?ks = "sort (map fst ?bins)"
  have ks_set: "set ?ks = bin_idx ` set predictions"
    using build_bins_keys[of predictions] by simp
  have ks_dist: "distinct ?ks"
    using build_bins_distinct[of predictions] by simp
  have "sum_list (map bin_count (calibration_table predictions))
      = sum_list (map (\<lambda>k. length (bins_get ?bins k)) ?ks)"
    by (simp add: calibration_table_def Let_def calibration_counts)
  also have "\<dots> = (\<Sum>k\<in>set ?ks. length (bins_get ?bins k))"
    using ks_dist by (rule sum_list_distinct_conv_sum_set)
  also have "\<dots> = (\<Sum>k\<in>bin_idx ` set predictions.
      length (filter (\<lambda>p. bin_idx p = k) predictions))"
    unfolding ks_set by (simp add: build_bins_get)
  also have "\<dots> = length predictions" by (rule length_by_bins)
  finally have total: "sum_list (map bin_count (calibration_table predictions)) = length predictions" .
  have "\<forall>k\<in>set ?ks. bins_get ?bins k \<noteq> []"
    unfolding ks_set by (auto simp add: build_bins_get filter_empty_conv)
  then have idx: "map bin_index (calibration_table predictions) = ?ks"
    by (simp add: calibration_table_def Let_def calibration_indices)
  show ?thesis
    using total ks_set ks_dist unfolding idx by (simp add: build_bins_get)
qed

theorem calibration_bins_partition_witness:
  "map (\<lambda>l. (bin_index l, bin_count l))
     (calibration_table [make_prediction 1 0.001 1 0.0005, make_prediction 0.95 0.001 1 0.0005,
                         make_prediction 0.31 0 0 0.001, make_prediction 0.99 0.002 1 0.001])
     = [(3, 1), (9, 2), (10, 1)]
   \<and> sum_list (map bin_count
       (calibration_table [make_prediction 1 0.001 1 0.0005, make_prediction 0.95 0.001 1 0.0005,
                           make_prediction 0.31 0 0 0.001, make_prediction 0.99 0.002 1 0.001]))
     = 4"
proof -
  have t: "map (\<lambda>l. (bin_index l, bin_count l))
     (calibration_table [make_prediction 1 0.001 1 0.0005, make_prediction 0.95 0.001 1 0.0005,
                         make_prediction 0.31 0 0 0.001, make_prediction 0.99 0.002 1 0.001])
     = [(3, 1), (9, 2), (10, 1)]"
    by (simp add: calibration_table_def build_bins_def calibration_line_def bins_get_def
        bin_idx_def make_prediction_def int_of_float_def)
  show ?thesis
    using calibration_bins_partition[of "[make_prediction 1 0.001 1 0.0005,
        make_prediction 0.95 0.001 1 0.0005, make_prediction 0.31 0 0 0.001,
        make_prediction 0.99 0.002 1 0.001]" 0] t
    by simp
qed

end
